theory Spec2Isabelle
  imports Main
begin

section \<open>The ECS task target of the events-targets package\<close>

text \<open>
  A shallow embedding of \<^verbatim>\<open>packages/@aws-cdk/aws-events-targets/lib/ecs-task.ts\<close>: the
  constructor of \<^verbatim>\<open>EcsTask\<close>, which validates the security-group inputs and resolves the
  security groups of the task, and \<^verbatim>\<open>bind\<close>, which derives the policy statements of the
  events role, the input payload and the ECS launch parameters.

  An optional property (\<^verbatim>\<open>x?: T\<close>) is a value of type \<open>T option\<close>, \<open>None\<close> standing
  for \<^verbatim>\<open>undefined\<close>. A task definition is a mutable object shared between the targets
  that name it, so it lives in a store and is named by a reference. A thrown error is the
  left injection of a sum.
\<close>

subsection \<open>Collaborators\<close>

datatype Error = Error string

text \<open>
  Modelled from the spec: the enumerations \<^verbatim>\<open>ecs.NetworkMode\<close> and \<^verbatim>\<open>ec2.SubnetType\<close>
  are declared outside the source file; the network mode is an enumeration with one
  mode that gives every task its own network interface (\<open>AWS_VPC\<close>), the subnet type
  one with the public and the private subnets among its values.
\<close>

datatype NetworkMode = NONE | BRIDGE | AWS_VPC | HOST

datatype SubnetType = ISOLATED | PRIVATE | PUBLIC

record Role =
  roleArn :: string

record SecurityGroup =
  securityGroupId :: string
  securityGroupVpc :: "string option"

record SubnetSelection =
  subnetType :: "SubnetType option"
  subnetGroupName :: "string option"
  onePerAz :: "bool option"

record SelectedSubnets =
  subnetIds :: "string list"

text \<open>
  The network context of a cluster resolves a subnet selection into subnets. The method
  belongs to the EC2 package; it is a field of the record, and it may throw.
\<close>

record Vpc =
  vpcId :: string
  selectSubnets :: "SubnetSelection \<Rightarrow> Error + SelectedSubnets"

record Cluster =
  clusterArn :: string
  vpc :: Vpc

text \<open>
  The construct node of a task definition: its path in the construct tree, its children
  by identifier and the warnings recorded on it. The constructor casts whatever child it
  finds under the identifier \<^verbatim>\<open>'SecurityGroup'\<close> to a security group without a check, so
  the children are kept at that type.
\<close>

record ConstructNode =
  path :: string
  children :: "string \<rightharpoonup> SecurityGroup"
  warnings :: "string list"

record TaskDefinition =
  taskDefinitionArn :: string
  networkMode :: NetworkMode
  isEc2Compatible :: bool
  isFargateCompatible :: bool
  executionRole :: "Role option"
  taskRole :: Role
  node :: ConstructNode

type_synonym td_ref = nat

type_synonym store = "td_ref \<Rightarrow> TaskDefinition"

text \<open>
  Modelled from the spec: the construct node of the task definition is not part of the
  source file. It supports looking up a scoped child resource by a stable identifier.
\<close>

definition tryFindChild :: "store \<Rightarrow> td_ref \<Rightarrow> string \<Rightarrow> SecurityGroup option" where
  "tryFindChild s td ident = children (node (s td)) ident"

text \<open>
  Modelled from the spec: \<^verbatim>\<open>node.addWarning\<close> is not part of the source file. It records
  a non-fatal warning on the task definition; the warnings are kept in the order in
  which they were recorded.
\<close>

definition addWarning :: "store \<Rightarrow> td_ref \<Rightarrow> string \<Rightarrow> store" where
  "addWarning s td msg =
     s(td := (s td)\<lparr>node := (node (s td))\<lparr>warnings := warnings (node (s td)) @ [msg]\<rparr>\<rparr>)"

text \<open>
  Modelled from the spec: the class \<^verbatim>\<open>ec2.SecurityGroup\<close> is not part of the source file.
  Creating one allocates a new security group scoped to the task definition as the child
  with the given identifier, associated with the network of the cluster. The group is
  identified by its place in the construct tree.
\<close>

definition new_SecurityGroup :: "store \<Rightarrow> td_ref \<Rightarrow> string \<Rightarrow> Vpc \<Rightarrow> SecurityGroup \<times> store" where
  "new_SecurityGroup s scope ident v =
     (let n = node (s scope);
          g = \<lparr>securityGroupId = path n @ ''/'' @ ident, securityGroupVpc = Some (vpcId v)\<rparr>
      in (g, s(scope := (s scope)\<lparr>node := n\<lparr>children := (children n)(ident \<mapsto> g)\<rparr>\<rparr>)))"

subsection \<open>Properties of the target\<close>

text \<open>
  Modelled from the spec: the interface \<^verbatim>\<open>ContainerOverride\<close> is imported from
  \<^verbatim>\<open>./ecs-task-properties\<close>, which is not part of the source file: a container name plus
  override fields (command, environment, resource limits). The override fields are the
  parent record, so that the input entry and the payload entry extend it by their own
  name field.
\<close>

record OverrideFields =
  command :: "string list option"
  environment :: "(string \<times> string) list option"
  cpu :: "int option"
  memoryLimit :: "int option"
  memoryReservation :: "int option"

record ContainerOverride = OverrideFields +
  containerName :: string

record TaskOverride = OverrideFields +
  name :: string

record EcsTaskProps =
  cluster :: Cluster
  taskDefinition :: td_ref
  taskCount :: "int option"
  containerOverrides :: "ContainerOverride list option"
  subnetSelection :: "SubnetSelection option"
  securityGroup :: "SecurityGroup option"
  securityGroups :: "SecurityGroup list option"

record EcsTask =
  props :: EcsTaskProps
  securityGroup :: "SecurityGroup option"
  securityGroups :: "SecurityGroup list option"
  cluster :: Cluster
  taskDefinition :: td_ref
  taskCount :: int

subsection \<open>The constructor\<close>

text \<open>
  The object as it is before the security groups are resolved: both security-group
  fields are still undefined.
\<close>

definition EcsTask_init :: "EcsTaskProps \<Rightarrow> EcsTask" where
  "EcsTask_init p =
     \<lparr>props = p,
      EcsTask.securityGroup = None,
      EcsTask.securityGroups = None,
      EcsTask.cluster = EcsTaskProps.cluster p,
      EcsTask.taskDefinition = EcsTaskProps.taskDefinition p,
      EcsTask.taskCount = (case EcsTaskProps.taskCount p of Some n \<Rightarrow> n | None \<Rightarrow> 1)\<rparr>"

text \<open>
  The constructor returns the error it throws or the object it builds, and the store it
  leaves behind. An array is truthy in JavaScript even when it is empty, so the test
  \<^verbatim>\<open>if (props.securityGroups)\<close> asks whether the list was supplied.
\<close>

definition EcsTask_constructor :: "EcsTaskProps \<Rightarrow> store \<Rightarrow> (Error + EcsTask) \<times> store" where
  "EcsTask_constructor p s =
     (if EcsTaskProps.securityGroup p \<noteq> None \<and> EcsTaskProps.securityGroups p \<noteq> None
      then (Inl (Error ''Only one of SecurityGroup or SecurityGroups can be populated.''), s)
      else
        let this = EcsTask_init p; td = EcsTask.taskDefinition this in
        if networkMode (s td) \<noteq> AWS_VPC
        then
          (if EcsTaskProps.securityGroup p \<noteq> None \<or> EcsTaskProps.securityGroups p \<noteq> None
           then (Inr this,
                 addWarning s td ''security groups are ignored when network mode is not awsvpc'')
           else (Inr this, s))
        else
          (case EcsTaskProps.securityGroups p of
             Some sgs \<Rightarrow> (Inr (this\<lparr>EcsTask.securityGroups := Some sgs\<rparr>), s)
           | None \<Rightarrow>
               (case (case EcsTaskProps.securityGroup p of
                        Some g \<Rightarrow> Some g
                      | None \<Rightarrow> tryFindChild s td ''SecurityGroup'') of
                  Some g \<Rightarrow>
                    (Inr (this\<lparr>EcsTask.securityGroup := Some g,
                               EcsTask.securityGroups := Some [g]\<rparr>), s)
                | None \<Rightarrow>
                    (let (g, s') = new_SecurityGroup s td ''SecurityGroup''
                                     (vpc (EcsTaskProps.cluster (props this)))
                     in (Inr (this\<lparr>EcsTask.securityGroup := Some g,
                                    EcsTask.securityGroups := Some [g]\<rparr>), s')))))"

subsection \<open>The result of bind\<close>

record PolicyStatement =
  actions :: "string list"
  resources :: "string list"
  conditions :: "(string \<times> (string \<times> string) list) list"

text \<open>
  Modelled from the spec: \<^verbatim>\<open>singletonEventRole\<close> is imported from \<^verbatim>\<open>./util\<close>, which is not
  part of the source file. It yields the reference to the role of the invoker; the role
  is represented by the task definition it belongs to and the statements granted to it.
\<close>

record EventsRole =
  roleScope :: td_ref
  roleStatements :: "PolicyStatement list"

definition singletonEventRole :: "td_ref \<Rightarrow> PolicyStatement list \<Rightarrow> EventsRole" where
  "singletonEventRole scope stmts = \<lparr>roleScope = scope, roleStatements = stmts\<rparr>"

record TargetInput =
  containerOverrides :: "TaskOverride list option"

record AwsVpcConfigurationProperty =
  subnets :: "string list"
  assignPublicIp :: string
  securityGroups :: "string list option"

record NetworkConfigurationProperty =
  awsVpcConfiguration :: AwsVpcConfigurationProperty

record EcsParametersProperty =
  taskCount :: int
  taskDefinitionArn :: string
  launchType :: "string option"
  networkConfiguration :: "NetworkConfigurationProperty option"

record RuleTargetConfig =
  targetId :: string
  arn :: string
  role :: EventsRole
  ecsParameters :: EcsParametersProperty
  input :: TargetInput
  targetResource :: td_ref

subsection \<open>bind\<close>

text \<open>
  The statements are collected in an array that starts with the grant to run the task
  and grows by \<^verbatim>\<open>push\<close>.
\<close>

definition policyStatements :: "EcsTask \<Rightarrow> store \<Rightarrow> PolicyStatement list" where
  "policyStatements this s =
     (let td = s (EcsTask.taskDefinition this);
          ps0 = [\<lparr>actions = [''ecs:RunTask''],
                  resources = [TaskDefinition.taskDefinitionArn td],
                  conditions =
                    [(''ArnEquals'', [(''ecs:cluster'', clusterArn (EcsTask.cluster this))])]\<rparr>];
          ps1 = (case executionRole td of
                   Some r \<Rightarrow> ps0 @ [\<lparr>actions = [''iam:PassRole''],
                                      resources = [roleArn r],
                                      conditions = []\<rparr>]
                 | None \<Rightarrow> ps0);
          ps2 = (if isFargateCompatible td
                 then ps1 @ [\<lparr>actions = [''iam:PassRole''],
                              resources = [roleArn (taskRole td)],
                              conditions = []\<rparr>]
                 else ps1)
      in ps2)"

text \<open>
  The arrow function of the \<^verbatim>\<open>map\<close> over the overrides: the container name moves to the
  key \<^verbatim>\<open>name\<close>, the rest of the entry is spread into the new object.
\<close>

definition renameContainer :: "ContainerOverride \<Rightarrow> TaskOverride" where
  "renameContainer c =
     \<lparr>command = command c,
      environment = environment c,
      cpu = cpu c,
      memoryLimit = memoryLimit c,
      memoryReservation = memoryReservation c,
      name = containerName c\<rparr>"

definition bind_input :: "EcsTask \<Rightarrow> TargetInput" where
  "bind_input this =
     \<lparr>TargetInput.containerOverrides =
        (case EcsTaskProps.containerOverrides (props this) of
           None \<Rightarrow> None
         | Some cs \<Rightarrow> Some (map renameContainer cs))\<rparr>"

definition bind_subnetSelection :: "EcsTask \<Rightarrow> SubnetSelection" where
  "bind_subnetSelection this =
     (case subnetSelection (props this) of
        Some sel \<Rightarrow> sel
      | None \<Rightarrow> \<lparr>subnetType = Some PRIVATE, subnetGroupName = None, onePerAz = None\<rparr>)"

definition bind_assignPublicIp :: "EcsTask \<Rightarrow> string" where
  "bind_assignPublicIp this =
     (if subnetType (bind_subnetSelection this) = Some PUBLIC then ''ENABLED'' else ''DISABLED'')"

definition baseEcsParameters :: "EcsTask \<Rightarrow> store \<Rightarrow> EcsParametersProperty" where
  "baseEcsParameters this s =
     \<lparr>EcsParametersProperty.taskCount = EcsTask.taskCount this,
      EcsParametersProperty.taskDefinitionArn =
        TaskDefinition.taskDefinitionArn (s (EcsTask.taskDefinition this)),
      launchType = None,
      networkConfiguration = None\<rparr>"

definition bind_ecsParameters :: "EcsTask \<Rightarrow> store \<Rightarrow> Error + EcsParametersProperty" where
  "bind_ecsParameters this s =
     (let td = s (EcsTask.taskDefinition this) in
      if networkMode td = AWS_VPC
      then
        (case selectSubnets (vpc (EcsTaskProps.cluster (props this)))
                (bind_subnetSelection this) of
           Inl e \<Rightarrow> Inl e
         | Inr sel \<Rightarrow>
             Inr ((baseEcsParameters this s)
                    \<lparr>launchType := Some (if isEc2Compatible td then ''EC2'' else ''FARGATE''),
                     networkConfiguration := Some
                       \<lparr>awsVpcConfiguration =
                          \<lparr>subnets = subnetIds sel,
                           assignPublicIp = bind_assignPublicIp this,
                           AwsVpcConfigurationProperty.securityGroups =
                             (case EcsTask.securityGroups this of
                                None \<Rightarrow> None
                              | Some gs \<Rightarrow> Some (map securityGroupId gs))\<rparr>\<rparr>\<rparr>))
      else Inr (baseEcsParameters this s))"

text \<open>
  The two parameters of \<^verbatim>\<open>bind\<close>, the rule and the identifier, are not read by its body
  and are left out. The result is the target configuration, or the error of the subnet
  lookup.
\<close>

definition bind :: "EcsTask \<Rightarrow> store \<Rightarrow> Error + RuleTargetConfig" where
  "bind this s =
     (let stmts = policyStatements this s;
          a = clusterArn (EcsTask.cluster this);
          r = singletonEventRole (EcsTask.taskDefinition this) stmts
      in case bind_ecsParameters this s of
           Inl e \<Rightarrow> Inl e
         | Inr ep \<Rightarrow>
             Inr \<lparr>targetId = '''',
                  arn = a,
                  role = r,
                  ecsParameters = ep,
                  input = bind_input this,
                  targetResource = EcsTask.taskDefinition this\<rparr>)"

subsection \<open>Example inputs\<close>

text \<open>
  A cluster whose network resolves every subnet selection, a task definition that is
  EC2 compatible, Fargate compatible in \<open>AWS_VPC\<close> mode only, and declares an execution
  role, a store that holds it at every reference, and properties that supply neither
  security groups nor overrides. A second task definition is EC2 only and uses one role
  both as its execution role and as its task role.
\<close>

definition ex_vpc :: Vpc where
  "ex_vpc =
     \<lparr>vpcId = ''vpc-1'',
      selectSubnets = (\<lambda>sel. Inr \<lparr>subnetIds =
        (if subnetType sel = Some PUBLIC then [''subnet-public''] else [''subnet-private''])\<rparr>)\<rparr>"

definition ex_cluster :: Cluster where
  "ex_cluster = \<lparr>clusterArn = ''arn:cluster'', vpc = ex_vpc\<rparr>"

definition ex_taskDefinition :: "NetworkMode \<Rightarrow> TaskDefinition" where
  "ex_taskDefinition m =
     \<lparr>TaskDefinition.taskDefinitionArn = ''arn:taskdef'',
      networkMode = m,
      isEc2Compatible = True,
      isFargateCompatible = (m = AWS_VPC),
      executionRole = Some \<lparr>roleArn = ''arn:execution-role''\<rparr>,
      taskRole = \<lparr>roleArn = ''arn:task-role''\<rparr>,
      node = \<lparr>path = ''Stack/TaskDef'', children = Map.empty, warnings = []\<rparr>\<rparr>"

definition ex_store :: "NetworkMode \<Rightarrow> store" where
  "ex_store m = (\<lambda>_. ex_taskDefinition m)"

definition ex_securityGroup :: SecurityGroup where
  "ex_securityGroup = \<lparr>securityGroupId = ''sg-1'', securityGroupVpc = None\<rparr>"

definition ex_props :: EcsTaskProps where
  "ex_props =
     \<lparr>EcsTaskProps.cluster = ex_cluster,
      EcsTaskProps.taskDefinition = 0,
      EcsTaskProps.taskCount = None,
      EcsTaskProps.containerOverrides = None,
      subnetSelection = None,
      EcsTaskProps.securityGroup = None,
      EcsTaskProps.securityGroups = None\<rparr>"

definition ex_props_both :: EcsTaskProps where
  "ex_props_both =
     ex_props\<lparr>EcsTaskProps.securityGroup := Some ex_securityGroup,
              EcsTaskProps.securityGroups := Some [ex_securityGroup]\<rparr>"

definition ex_props_zero :: EcsTaskProps where
  "ex_props_zero = ex_props\<lparr>EcsTaskProps.taskCount := Some 0\<rparr>"

definition ex_overrides :: "ContainerOverride list" where
  "ex_overrides =
     [\<lparr>command = Some [''echo'', ''hello''], environment = None, cpu = Some 256,
       memoryLimit = None, memoryReservation = None, containerName = ''web''\<rparr>,
      \<lparr>command = None, environment = Some [(''STAGE'', ''prod'')], cpu = None,
       memoryLimit = Some 512, memoryReservation = None, containerName = ''worker''\<rparr>]"

definition ex_createdGroup :: SecurityGroup where
  "ex_createdGroup =
     \<lparr>securityGroupId = ''Stack/TaskDef/SecurityGroup'', securityGroupVpc = Some ''vpc-1''\<rparr>"

definition ex_task :: EcsTask where
  "ex_task =
     (EcsTask_init ex_props)
       \<lparr>EcsTask.securityGroup := Some ex_createdGroup,
        EcsTask.securityGroups := Some [ex_createdGroup]\<rparr>"

definition ex_props_public :: EcsTaskProps where
  "ex_props_public =
     ex_props\<lparr>subnetSelection :=
       Some \<lparr>subnetType = Some PUBLIC, subnetGroupName = None, onePerAz = None\<rparr>\<rparr>"

definition ex_task_public :: EcsTask where
  "ex_task_public = ex_task\<lparr>props := ex_props_public\<rparr>"

definition ex_store_created :: store where
  "ex_store_created = snd (new_SecurityGroup (ex_store AWS_VPC) 0 ''SecurityGroup'' ex_vpc)"

definition ex_props_overrides :: EcsTaskProps where
  "ex_props_overrides = ex_props\<lparr>EcsTaskProps.containerOverrides := Some ex_overrides\<rparr>"

definition ex_props_legacy :: EcsTaskProps where
  "ex_props_legacy = ex_props\<lparr>EcsTaskProps.securityGroup := Some ex_securityGroup\<rparr>"

definition ex_taskDefinition_sharedRole :: TaskDefinition where
  "ex_taskDefinition_sharedRole =
     \<lparr>TaskDefinition.taskDefinitionArn = ''arn:taskdef'',
      networkMode = BRIDGE,
      isEc2Compatible = True,
      isFargateCompatible = False,
      executionRole = Some \<lparr>roleArn = ''arn:shared-role''\<rparr>,
      taskRole = \<lparr>roleArn = ''arn:shared-role''\<rparr>,
      node = \<lparr>path = ''Stack/TaskDef'', children = Map.empty, warnings = []\<rparr>\<rparr>"

definition ex_store_sharedRole :: store where
  "ex_store_sharedRole = (\<lambda>_. ex_taskDefinition_sharedRole)"

section \<open>Properties\<close>

subsection \<open>Facts about the pieces\<close>

lemma new_SecurityGroup_child:
  "new_SecurityGroup s td ident v = (g, s') \<Longrightarrow> tryFindChild s' td ident = Some g"
  by (auto simp: new_SecurityGroup_def tryFindChild_def Let_def)

lemma new_SecurityGroup_networkMode:
  "new_SecurityGroup s td ident v = (g, s') \<Longrightarrow> networkMode (s' r) = networkMode (s r)"
  by (auto simp: new_SecurityGroup_def Let_def)

lemma addWarning_networkMode: "networkMode (addWarning s td msg r) = networkMode (s r)"
  by (simp add: addWarning_def)

lemma addWarning_warnings:
  "warnings (node (addWarning s td msg td)) = warnings (node (s td)) @ [msg]"
  by (simp add: addWarning_def)

lemma constructor_networkMode:
  "EcsTask_constructor p s = (res, s') \<Longrightarrow> networkMode (s' r) = networkMode (s r)"
  by (auto simp: EcsTask_constructor_def Let_def addWarning_networkMode
           split: if_splits option.splits prod.splits
           dest: new_SecurityGroup_networkMode)

lemma constructor_taskDefinition:
  "EcsTask_constructor p s = (Inr this, s') \<Longrightarrow>
     EcsTask.taskDefinition this = EcsTaskProps.taskDefinition p \<and> props this = p \<and>
     EcsTask.taskCount this = (case EcsTaskProps.taskCount p of Some n \<Rightarrow> n | None \<Rightarrow> 1)"
  by (auto simp: EcsTask_constructor_def EcsTask_init_def Let_def
           split: if_splits option.splits prod.splits)

lemma bind_Inr:
  "bind this s = Inr cfg \<Longrightarrow>
     (\<exists>ep. bind_ecsParameters this s = Inr ep \<and> ecsParameters cfg = ep) \<and>
     roleStatements (role cfg) = policyStatements this s \<and>
     input cfg = bind_input this"
  by (auto simp: bind_def Let_def singletonEventRole_def split: sum.splits)

lemma bind_returns:
  "bind_ecsParameters this s = Inr ep \<Longrightarrow> \<exists>cfg. bind this s = Inr cfg \<and> ecsParameters cfg = ep"
  by (simp add: bind_def Let_def)

lemma ecsParameters_other_mode:
  "networkMode (s (EcsTask.taskDefinition this)) \<noteq> AWS_VPC \<Longrightarrow>
     bind_ecsParameters this s = Inr (baseEcsParameters this s)"
  by (simp add: bind_ecsParameters_def Let_def)

lemma ecsParameters_awsvpc:
  "networkMode (s (EcsTask.taskDefinition this)) = AWS_VPC \<Longrightarrow>
   bind_ecsParameters this s = Inr ep \<Longrightarrow>
     EcsParametersProperty.taskCount ep = EcsTask.taskCount this \<and>
     launchType ep =
       Some (if isEc2Compatible (s (EcsTask.taskDefinition this)) then ''EC2'' else ''FARGATE'') \<and>
     (\<exists>sel. selectSubnets (vpc (EcsTaskProps.cluster (props this))) (bind_subnetSelection this)
               = Inr sel \<and>
        networkConfiguration ep = Some
          \<lparr>awsVpcConfiguration =
             \<lparr>subnets = subnetIds sel,
              assignPublicIp = bind_assignPublicIp this,
              AwsVpcConfigurationProperty.securityGroups =
                map_option (map securityGroupId) (EcsTask.securityGroups this)\<rparr>\<rparr>)"
  by (auto simp: bind_ecsParameters_def baseEcsParameters_def Let_def map_option_case
           split: sum.splits option.splits)

lemma ecsParameters_awsvpc_returns:
  "networkMode (s (EcsTask.taskDefinition this)) = AWS_VPC \<Longrightarrow>
   selectSubnets (vpc (EcsTaskProps.cluster (props this))) (bind_subnetSelection this) = Inr sel \<Longrightarrow>
     \<exists>ep. bind_ecsParameters this s = Inr ep"
  by (simp add: bind_ecsParameters_def Let_def)

lemma ecsParameters_taskCount:
  "bind_ecsParameters this s = Inr ep \<Longrightarrow>
     EcsParametersProperty.taskCount ep = EcsTask.taskCount this \<and>
     EcsParametersProperty.taskDefinitionArn ep =
       TaskDefinition.taskDefinitionArn (s (EcsTask.taskDefinition this))"
  by (auto simp: bind_ecsParameters_def baseEcsParameters_def Let_def
           split: if_splits sum.splits)

lemma ex_constructor_bridge:
  "EcsTask_constructor ex_props (ex_store BRIDGE) = (Inr (EcsTask_init ex_props), ex_store BRIDGE)"
  by (simp add: EcsTask_constructor_def EcsTask_init_def ex_props_def ex_store_def
        ex_taskDefinition_def)

lemma ex_bind_awsvpc: "\<not> isl (bind ex_task (ex_store AWS_VPC))"
  by (simp add: bind_def bind_ecsParameters_def Let_def ex_store_def ex_taskDefinition_def
        ex_task_def EcsTask_init_def ex_props_def ex_cluster_def ex_vpc_def)

lemma not_isl_projr: "\<not> isl x \<Longrightarrow> x = Inr (projr x)"
  by (cases x) simp_all

lemma ex_constructor_created:
  "EcsTask_constructor ex_props (ex_store AWS_VPC) = (Inr ex_task, ex_store_created)"
  by (simp add: EcsTask_constructor_def EcsTask_init_def ex_props_def ex_store_def
        ex_taskDefinition_def tryFindChild_def new_SecurityGroup_def ex_task_def
        ex_createdGroup_def ex_cluster_def ex_vpc_def ex_store_created_def Let_def)

lemma bind_fails_iff:
  "isl (bind this s) \<longleftrightarrow>
     networkMode (s (EcsTask.taskDefinition this)) = AWS_VPC \<and>
     isl (selectSubnets (vpc (EcsTaskProps.cluster (props this))) (bind_subnetSelection this))"
  by (auto simp: bind_def bind_ecsParameters_def Let_def split: sum.splits)

lemma renameContainer_fields:
  "name (renameContainer c) = containerName c \<and>
   command (renameContainer c) = command c \<and>
   environment (renameContainer c) = environment c \<and>
   cpu (renameContainer c) = cpu c \<and>
   memoryLimit (renameContainer c) = memoryLimit c \<and>
   memoryReservation (renameContainer c) = memoryReservation c"
  by (simp add: renameContainer_def)

subsection \<open>The claims\<close>

text \<open>
  Claim C1, to the extent the constructor enforces it. For every properties object that the constructor accepts, the
  task count of the target is the supplied task count when one was given and 1
  otherwise, and every result of bind carries exactly that count in its launch
  parameters. The constructor does not check the supplied value: the count is at least
  1 exactly when no count was supplied or the supplied count is itself at least 1.
\<close>

theorem taskCount_carried_into_bind:
  assumes "EcsTask_constructor p s = (Inr this, s')"
  shows "EcsTask.taskCount this =
           (case EcsTaskProps.taskCount p of Some n \<Rightarrow> n | None \<Rightarrow> 1) \<and>
         (\<forall>cfg. bind this s' = Inr cfg \<longrightarrow>
            EcsParametersProperty.taskCount (ecsParameters cfg) = EcsTask.taskCount this) \<and>
         (1 \<le> EcsTask.taskCount this \<longleftrightarrow>
            (\<forall>n. EcsTaskProps.taskCount p = Some n \<longrightarrow> 1 \<le> n))"
proof -
  have c: "EcsTask.taskCount this =
             (case EcsTaskProps.taskCount p of Some n \<Rightarrow> n | None \<Rightarrow> 1)"
    using constructor_taskDefinition [OF assms] by simp
  have b: "\<forall>cfg. bind this s' = Inr cfg \<longrightarrow>
             EcsParametersProperty.taskCount (ecsParameters cfg) = EcsTask.taskCount this"
    using bind_Inr ecsParameters_taskCount by blast
  have r: "1 \<le> EcsTask.taskCount this \<longleftrightarrow>
             (\<forall>n. EcsTaskProps.taskCount p = Some n \<longrightarrow> 1 \<le> n)"
    using c by (cases "EcsTaskProps.taskCount p") simp_all
  from c b r show ?thesis by blast
qed

text \<open>The same statement at the example inputs.\<close>

theorem taskCount_carried_into_bind_witness:
  "EcsTask_constructor ex_props (ex_store BRIDGE) = (Inr (EcsTask_init ex_props), ex_store BRIDGE) \<and>
   EcsTask.taskCount (EcsTask_init ex_props) = 1 \<and>
   \<not> isl (bind (EcsTask_init ex_props) (ex_store BRIDGE)) \<and>
   EcsParametersProperty.taskCount
     (ecsParameters (projr (bind (EcsTask_init ex_props) (ex_store BRIDGE)))) = 1"
proof -
  have n: "\<not> isl (bind (EcsTask_init ex_props) (ex_store BRIDGE))"
    by (simp add: bind_def bind_ecsParameters_def Let_def ex_store_def ex_taskDefinition_def)
  then have b: "bind (EcsTask_init ex_props) (ex_store BRIDGE) =
                  Inr (projr (bind (EcsTask_init ex_props) (ex_store BRIDGE)))"
    by (cases "bind (EcsTask_init ex_props) (ex_store BRIDGE)") simp_all
  have t: "EcsTask.taskCount (EcsTask_init ex_props) = 1"
    by (simp add: EcsTask_init_def ex_props_def)
  from taskCount_carried_into_bind [OF ex_constructor_bridge] b t n
  show ?thesis using ex_constructor_bridge by metis
qed

text \<open>
  The stronger statement, that no accepted construction yields a count below 1, fails: a
  supplied task count of 0 is accepted by the constructor and is carried into the launch
  parameters that bind returns.
\<close>

theorem taskCount_zero_accepted:
  "EcsTask_constructor ex_props_zero (ex_store BRIDGE) =
     (Inr (EcsTask_init ex_props_zero), ex_store BRIDGE) \<and>
   \<not> isl (bind (EcsTask_init ex_props_zero) (ex_store BRIDGE)) \<and>
   EcsParametersProperty.taskCount
     (ecsParameters (projr (bind (EcsTask_init ex_props_zero) (ex_store BRIDGE)))) = 0 \<and>
   \<not> 1 \<le> EcsParametersProperty.taskCount
     (ecsParameters (projr (bind (EcsTask_init ex_props_zero) (ex_store BRIDGE))))"
  by (simp add: EcsTask_constructor_def EcsTask_init_def ex_props_zero_def ex_props_def
        ex_store_def ex_taskDefinition_def bind_def bind_ecsParameters_def
        baseEcsParameters_def Let_def)

text \<open>
  Claim C2, by position in the list. The statements that bind hands to the role of the
  invoker start with the grant of \<^verbatim>\<open>ecs:RunTask\<close> on the ARN of the task definition,
  conditioned by \<^verbatim>\<open>ArnEquals\<close> on the ARN of the cluster. After it one grant of
  \<^verbatim>\<open>iam:PassRole\<close> on the ARN of the execution role is appended exactly when the task
  definition declares an execution role, and then one grant of \<^verbatim>\<open>iam:PassRole\<close> on the
  ARN of the task role is appended exactly when the task definition is Fargate
  compatible. Nothing is merged when the two ARNs coincide. Across the four
  combinations the list has 1, 2, 2 and 3 statements.
\<close>

theorem bind_permission_set:
  assumes "bind this s = Inr cfg"
  shows "let td = s (EcsTask.taskDefinition this);
             stmts = policyStatements this s;
             pass = (\<lambda>a. \<lparr>actions = [''iam:PassRole''], resources = [a], conditions = []\<rparr>)
         in role cfg = singletonEventRole (EcsTask.taskDefinition this) stmts \<and>
            roleStatements (role cfg) = stmts \<and>
            stmts \<noteq> [] \<and>
            hd stmts =
              \<lparr>actions = [''ecs:RunTask''],
               resources = [TaskDefinition.taskDefinitionArn td],
               conditions =
                 [(''ArnEquals'', [(''ecs:cluster'', clusterArn (EcsTask.cluster this))])]\<rparr> \<and>
            tl stmts =
              (case executionRole td of Some r \<Rightarrow> [pass (roleArn r)] | None \<Rightarrow> []) @
              (if isFargateCompatible td then [pass (roleArn (taskRole td))] else []) \<and>
            (executionRole td = None \<and> \<not> isFargateCompatible td \<longrightarrow> length stmts = 1) \<and>
            (executionRole td \<noteq> None \<and> \<not> isFargateCompatible td \<longrightarrow> length stmts = 2) \<and>
            (executionRole td = None \<and> isFargateCompatible td \<longrightarrow> length stmts = 2) \<and>
            (executionRole td \<noteq> None \<and> isFargateCompatible td \<longrightarrow> length stmts = 3)"
proof -
  have r: "role cfg = singletonEventRole (EcsTask.taskDefinition this) (policyStatements this s)"
    using assms by (auto simp: bind_def Let_def split: sum.splits)
  have q: "roleStatements (role cfg) = policyStatements this s"
    using bind_Inr [OF assms] by simp
  show ?thesis
    using r q
    by (cases "executionRole (s (EcsTask.taskDefinition this))")
       (simp_all add: policyStatements_def Let_def)
qed

text \<open>The same statement at the example inputs.\<close>

theorem bind_permission_set_witness:
  "\<not> isl (bind ex_task (ex_store AWS_VPC)) \<and>
   roleStatements (role (projr (bind ex_task (ex_store AWS_VPC)))) =
     [\<lparr>actions = [''ecs:RunTask''], resources = [''arn:taskdef''],
       conditions = [(''ArnEquals'', [(''ecs:cluster'', ''arn:cluster'')])]\<rparr>,
      \<lparr>actions = [''iam:PassRole''], resources = [''arn:execution-role''], conditions = []\<rparr>,
      \<lparr>actions = [''iam:PassRole''], resources = [''arn:task-role''], conditions = []\<rparr>]"
proof -
  have b: "bind ex_task (ex_store AWS_VPC) = Inr (projr (bind ex_task (ex_store AWS_VPC)))"
    using ex_bind_awsvpc by (rule not_isl_projr)
  have v: "executionRole (ex_store AWS_VPC (EcsTask.taskDefinition ex_task)) =
             Some \<lparr>roleArn = ''arn:execution-role''\<rparr>"
          "isFargateCompatible (ex_store AWS_VPC (EcsTask.taskDefinition ex_task))"
          "TaskDefinition.taskDefinitionArn (ex_store AWS_VPC (EcsTask.taskDefinition ex_task)) =
             ''arn:taskdef''"
          "roleArn (taskRole (ex_store AWS_VPC (EcsTask.taskDefinition ex_task))) =
             ''arn:task-role''"
          "clusterArn (EcsTask.cluster ex_task) = ''arn:cluster''"
    by (simp_all add: ex_store_def ex_taskDefinition_def ex_task_def EcsTask_init_def
          ex_props_def ex_cluster_def)
  have h: "roleStatements (role (projr (bind ex_task (ex_store AWS_VPC)))) =
             policyStatements ex_task (ex_store AWS_VPC) \<and>
           policyStatements ex_task (ex_store AWS_VPC) \<noteq> [] \<and>
           hd (policyStatements ex_task (ex_store AWS_VPC)) =
             \<lparr>actions = [''ecs:RunTask''], resources = [''arn:taskdef''],
              conditions = [(''ArnEquals'', [(''ecs:cluster'', ''arn:cluster'')])]\<rparr> \<and>
           tl (policyStatements ex_task (ex_store AWS_VPC)) =
             [\<lparr>actions = [''iam:PassRole''], resources = [''arn:execution-role''],
               conditions = []\<rparr>,
              \<lparr>actions = [''iam:PassRole''], resources = [''arn:task-role''], conditions = []\<rparr>]"
    using bind_permission_set [OF b] by (simp add: Let_def v singletonEventRole_def)
  then show ?thesis
    using ex_bind_awsvpc hd_Cons_tl [of "policyStatements ex_task (ex_store AWS_VPC)"]
    by metis
qed

text \<open>
  Read as membership, the second equivalence fails: for a task definition that is EC2
  only and whose execution role is also its task role, the list is the grant to run the
  task followed by the grant for the execution role, which is a grant of
  \<^verbatim>\<open>iam:PassRole\<close> on the ARN of the task role although the task definition is not
  Fargate compatible.
\<close>

theorem shared_role_passRole_without_fargate:
  "\<not> isFargateCompatible (ex_store_sharedRole (EcsTask.taskDefinition (EcsTask_init ex_props))) \<and>
   \<not> isl (bind (EcsTask_init ex_props) ex_store_sharedRole) \<and>
   roleStatements (role (projr (bind (EcsTask_init ex_props) ex_store_sharedRole))) =
     policyStatements (EcsTask_init ex_props) ex_store_sharedRole \<and>
   policyStatements (EcsTask_init ex_props) ex_store_sharedRole =
     [\<lparr>actions = [''ecs:RunTask''], resources = [''arn:taskdef''],
       conditions = [(''ArnEquals'', [(''ecs:cluster'', ''arn:cluster'')])]\<rparr>,
      \<lparr>actions = [''iam:PassRole''], resources = [''arn:shared-role''], conditions = []\<rparr>] \<and>
   \<lparr>actions = [''iam:PassRole''],
    resources = [roleArn (taskRole
      (ex_store_sharedRole (EcsTask.taskDefinition (EcsTask_init ex_props))))],
    conditions = []\<rparr>
     \<in> set (policyStatements (EcsTask_init ex_props) ex_store_sharedRole)"
  by (simp add: bind_def bind_ecsParameters_def policyStatements_def singletonEventRole_def
        baseEcsParameters_def Let_def EcsTask_init_def ex_props_def ex_cluster_def
        ex_store_sharedRole_def ex_taskDefinition_sharedRole_def)

text \<open>
  Claim C3. When both the security-group list and the single legacy security group are
  supplied, the constructor fails with the error \<^verbatim>\<open>Only one of SecurityGroup or
  SecurityGroups can be populated.\<close> and no object is built. The check comes first: the
  outcome does not depend on the network mode, and the store is left as it was, so no
  warning was recorded and no security group was looked up or created.
\<close>

theorem constructor_rejects_both:
  assumes "EcsTaskProps.securityGroup p \<noteq> None" and "EcsTaskProps.securityGroups p \<noteq> None"
  shows "EcsTask_constructor p s =
           (Inl (Error ''Only one of SecurityGroup or SecurityGroups can be populated.''), s)"
  using assms by (simp add: EcsTask_constructor_def)

text \<open>The same statement at the example inputs.\<close>

theorem constructor_rejects_both_witness:
  "EcsTask_constructor ex_props_both (ex_store AWS_VPC) =
     (Inl (Error ''Only one of SecurityGroup or SecurityGroups can be populated.''),
      ex_store AWS_VPC) \<and>
   EcsTask_constructor ex_props_both (ex_store HOST) =
     (Inl (Error ''Only one of SecurityGroup or SecurityGroups can be populated.''),
      ex_store HOST)"
proof -
  have a: "EcsTaskProps.securityGroup ex_props_both \<noteq> None"
    by (simp add: ex_props_both_def)
  have b: "EcsTaskProps.securityGroups ex_props_both \<noteq> None"
    by (simp add: ex_props_both_def)
  show ?thesis
    using constructor_rejects_both [OF a b, of "ex_store AWS_VPC"]
          constructor_rejects_both [OF a b, of "ex_store HOST"]
    by simp
qed

text \<open>
  Claim C4. For a task definition in \<open>AWS_VPC\<close> mode and no security-group input, the
  constructor succeeds, the resolved list has exactly one element and the legacy field
  holds the same security group, which is the child \<^verbatim>\<open>SecurityGroup\<close> of the task
  definition afterwards: the child found there before, or else the group just created.
  A second construction against the same task definition without security-group input
  finds that child, resolves to the same group and leaves the store unchanged, so no
  second group is created.
\<close>

theorem awsvpc_default_group_reused:
  assumes "networkMode (s (EcsTaskProps.taskDefinition p)) = AWS_VPC"
      and "EcsTaskProps.securityGroup p = None"
      and "EcsTaskProps.securityGroups p = None"
  shows "\<exists>this s' g.
           EcsTask_constructor p s = (Inr this, s') \<and>
           EcsTask.securityGroups this = Some [g] \<and>
           EcsTask.securityGroup this = Some g \<and>
           tryFindChild s' (EcsTaskProps.taskDefinition p) ''SecurityGroup'' = Some g \<and>
           (\<forall>c. tryFindChild s (EcsTaskProps.taskDefinition p) ''SecurityGroup'' = Some c \<longrightarrow>
              g = c \<and> s' = s) \<and>
           (tryFindChild s (EcsTaskProps.taskDefinition p) ''SecurityGroup'' = None \<longrightarrow>
              (g, s') = new_SecurityGroup s (EcsTaskProps.taskDefinition p) ''SecurityGroup''
                          (vpc (EcsTaskProps.cluster p))) \<and>
           (\<forall>p2. EcsTaskProps.taskDefinition p2 = EcsTaskProps.taskDefinition p \<and>
                 EcsTaskProps.securityGroup p2 = None \<and>
                 EcsTaskProps.securityGroups p2 = None \<longrightarrow>
              (\<exists>this2. EcsTask_constructor p2 s' = (Inr this2, s') \<and>
                 EcsTask.securityGroups this2 = Some [g] \<and>
                 EcsTask.securityGroup this2 = Some g))"
proof -
  let ?td = "EcsTaskProps.taskDefinition p"
  have found: "\<And>s0 p0 c. networkMode (s0 (EcsTaskProps.taskDefinition p0)) = AWS_VPC \<Longrightarrow>
      EcsTaskProps.securityGroup p0 = None \<Longrightarrow> EcsTaskProps.securityGroups p0 = None \<Longrightarrow>
      tryFindChild s0 (EcsTaskProps.taskDefinition p0) ''SecurityGroup'' = Some c \<Longrightarrow>
      EcsTask_constructor p0 s0 =
        (Inr ((EcsTask_init p0)\<lparr>EcsTask.securityGroup := Some c,
                                 EcsTask.securityGroups := Some [c]\<rparr>), s0)"
    by (simp add: EcsTask_constructor_def EcsTask_init_def Let_def)
  show ?thesis
  proof (cases "tryFindChild s ?td ''SecurityGroup''")
    case (Some c)
    have 1: "EcsTask_constructor p s =
               (Inr ((EcsTask_init p)\<lparr>EcsTask.securityGroup := Some c,
                                       EcsTask.securityGroups := Some [c]\<rparr>), s)"
      using found assms Some by blast
    have 2: "\<forall>p2. EcsTaskProps.taskDefinition p2 = ?td \<and>
                 EcsTaskProps.securityGroup p2 = None \<and>
                 EcsTaskProps.securityGroups p2 = None \<longrightarrow>
              (\<exists>this2. EcsTask_constructor p2 s = (Inr this2, s) \<and>
                 EcsTask.securityGroups this2 = Some [c] \<and>
                 EcsTask.securityGroup this2 = Some c)"
      using found [of s _ c] assms(1) Some by simp
    from 1 2 Some show ?thesis by simp
  next
    case None
    obtain g s' where n: "new_SecurityGroup s ?td ''SecurityGroup'' (vpc (EcsTaskProps.cluster p))
                            = (g, s')"
      by (cases "new_SecurityGroup s ?td ''SecurityGroup'' (vpc (EcsTaskProps.cluster p))")
    have 1: "EcsTask_constructor p s =
               (Inr ((EcsTask_init p)\<lparr>EcsTask.securityGroup := Some g,
                                       EcsTask.securityGroups := Some [g]\<rparr>), s')"
      using assms None n by (simp add: EcsTask_constructor_def EcsTask_init_def Let_def)
    have c: "tryFindChild s' ?td ''SecurityGroup'' = Some g"
      using n by (rule new_SecurityGroup_child)
    have m: "networkMode (s' ?td) = AWS_VPC"
      using new_SecurityGroup_networkMode [OF n] assms(1) by simp
    have 2: "\<forall>p2. EcsTaskProps.taskDefinition p2 = ?td \<and>
                 EcsTaskProps.securityGroup p2 = None \<and>
                 EcsTaskProps.securityGroups p2 = None \<longrightarrow>
              (\<exists>this2. EcsTask_constructor p2 s' = (Inr this2, s') \<and>
                 EcsTask.securityGroups this2 = Some [g] \<and>
                 EcsTask.securityGroup this2 = Some g)"
      using found [of s' _ g] m c by simp
    from 1 2 c n None show ?thesis by simp
  qed
qed

text \<open>The same statement at the example inputs.\<close>

theorem awsvpc_default_group_reused_witness:
  "EcsTask_constructor ex_props (ex_store AWS_VPC) = (Inr ex_task, ex_store_created) \<and>
   EcsTask.securityGroups ex_task = Some [ex_createdGroup] \<and>
   EcsTask.securityGroup ex_task = Some ex_createdGroup \<and>
   tryFindChild ex_store_created 0 ''SecurityGroup'' = Some ex_createdGroup \<and>
   snd (EcsTask_constructor ex_props ex_store_created) = ex_store_created \<and>
   EcsTask.securityGroups (projr (fst (EcsTask_constructor ex_props ex_store_created))) =
     Some [ex_createdGroup]"
proof -
  have m: "networkMode (ex_store AWS_VPC (EcsTaskProps.taskDefinition ex_props)) = AWS_VPC"
    by (simp add: ex_store_def ex_taskDefinition_def)
  have a: "EcsTaskProps.securityGroup ex_props = None"
    and b: "EcsTaskProps.securityGroups ex_props = None"
    and t: "EcsTaskProps.taskDefinition ex_props = 0"
    by (simp_all add: ex_props_def)
  have g: "EcsTask.securityGroups ex_task = Some [ex_createdGroup]"
    by (simp add: ex_task_def)
  from awsvpc_default_group_reused [of "ex_store AWS_VPC" ex_props, OF m a b]
  obtain this s' g where
    r: "EcsTask_constructor ex_props (ex_store AWS_VPC) = (Inr this, s')"
       "EcsTask.securityGroups this = Some [g]"
       "EcsTask.securityGroup this = Some g"
       "tryFindChild s' (EcsTaskProps.taskDefinition ex_props) ''SecurityGroup'' = Some g"
       "\<forall>p2. EcsTaskProps.taskDefinition p2 = EcsTaskProps.taskDefinition ex_props \<and>
                 EcsTaskProps.securityGroup p2 = None \<and>
                 EcsTaskProps.securityGroups p2 = None \<longrightarrow>
              (\<exists>this2. EcsTask_constructor p2 s' = (Inr this2, s') \<and>
                 EcsTask.securityGroups this2 = Some [g] \<and>
                 EcsTask.securityGroup this2 = Some g)"
    by blast
  from r(1) ex_constructor_created have e: "this = ex_task" "s' = ex_store_created" by simp_all
  from r(2) e g have gg: "g = ex_createdGroup" by simp
  from r(5) a b obtain this2 where
    s: "EcsTask_constructor ex_props s' = (Inr this2, s')"
       "EcsTask.securityGroups this2 = Some [g]"
    by blast
  from r(1-4) s e gg t show ?thesis by simp
qed

text \<open>
  Claim C5. For a task definition in \<open>AWS_VPC\<close> mode whose subnets resolve, bind returns
  a configuration whose launch type is \<^verbatim>\<open>EC2\<close> whenever the task definition is EC2
  compatible, whether or not it is also Fargate compatible, and is \<^verbatim>\<open>FARGATE\<close> exactly
  when it is not EC2 compatible.
\<close>

theorem bind_launchType:
  assumes "networkMode (s (EcsTask.taskDefinition this)) = AWS_VPC"
      and "selectSubnets (vpc (EcsTaskProps.cluster (props this))) (bind_subnetSelection this)
             = Inr sel"
  shows "\<exists>cfg. bind this s = Inr cfg \<and>
           (isEc2Compatible (s (EcsTask.taskDefinition this)) \<longrightarrow>
              launchType (ecsParameters cfg) = Some ''EC2'') \<and>
           (launchType (ecsParameters cfg) = Some ''FARGATE'' \<longleftrightarrow>
              \<not> isEc2Compatible (s (EcsTask.taskDefinition this)))"
proof -
  from ecsParameters_awsvpc_returns [of s this sel] assms
  obtain ep where ep: "bind_ecsParameters this s = Inr ep" by blast
  from bind_returns [OF ep]
  obtain cfg where cfg: "bind this s = Inr cfg" "ecsParameters cfg = ep" by blast
  have "launchType ep =
          Some (if isEc2Compatible (s (EcsTask.taskDefinition this)) then ''EC2'' else ''FARGATE'')"
    using ecsParameters_awsvpc [of s this ep] assms(1) ep by simp
  with cfg show ?thesis by auto
qed

text \<open>The same statement at the example inputs.\<close>

theorem bind_launchType_witness:
  "\<not> isl (bind ex_task (ex_store AWS_VPC)) \<and>
   isEc2Compatible (ex_store AWS_VPC (EcsTask.taskDefinition ex_task)) \<and>
   isFargateCompatible (ex_store AWS_VPC (EcsTask.taskDefinition ex_task)) \<and>
   launchType (ecsParameters (projr (bind ex_task (ex_store AWS_VPC)))) = Some ''EC2''"
proof -
  have m: "networkMode (ex_store AWS_VPC (EcsTask.taskDefinition ex_task)) = AWS_VPC"
    by (simp add: ex_store_def ex_taskDefinition_def)
  have e: "isEc2Compatible (ex_store AWS_VPC (EcsTask.taskDefinition ex_task))"
          "isFargateCompatible (ex_store AWS_VPC (EcsTask.taskDefinition ex_task))"
    by (simp_all add: ex_store_def ex_taskDefinition_def)
  have u: "selectSubnets (vpc (EcsTaskProps.cluster (props ex_task))) (bind_subnetSelection ex_task)
             = Inr \<lparr>subnetIds = [''subnet-private'']\<rparr>"
    by (simp add: ex_task_def EcsTask_init_def ex_props_def ex_cluster_def ex_vpc_def
          bind_subnetSelection_def)
  from bind_launchType [of "ex_store AWS_VPC" ex_task "\<lparr>subnetIds = [''subnet-private'']\<rparr>"] m u e
  show ?thesis by auto
qed

text \<open>
  Claim C6. In every call of bind the public-IP flag is \<^verbatim>\<open>ENABLED\<close> exactly when the
  subnet type of the resolved subnet selection is \<open>PUBLIC\<close>, and \<^verbatim>\<open>DISABLED\<close> for every
  other subnet selection. The resolved selection is the one the caller supplied; without
  one it is the selection of the private subnets, for which the flag is \<^verbatim>\<open>DISABLED\<close>.
  In \<open>AWS_VPC\<close> mode the network configuration that bind returns carries this flag.
\<close>

theorem bind_assignPublicIp_flag:
  "(bind_assignPublicIp this = ''ENABLED'' \<longleftrightarrow>
      subnetType (bind_subnetSelection this) = Some PUBLIC) \<and>
   (subnetType (bind_subnetSelection this) \<noteq> Some PUBLIC \<longrightarrow>
      bind_assignPublicIp this = ''DISABLED'') \<and>
   (\<forall>sel. subnetSelection (props this) = Some sel \<longrightarrow> bind_subnetSelection this = sel) \<and>
   (subnetSelection (props this) = None \<longrightarrow>
      subnetType (bind_subnetSelection this) = Some PRIVATE \<and>
      bind_assignPublicIp this = ''DISABLED'') \<and>
   (\<forall>cfg. networkMode (s (EcsTask.taskDefinition this)) = AWS_VPC \<and> bind this s = Inr cfg \<longrightarrow>
      (\<exists>nc. networkConfiguration (ecsParameters cfg) = Some nc \<and>
         assignPublicIp (awsVpcConfiguration nc) = bind_assignPublicIp this))"
proof -
  have a: "bind_assignPublicIp this = ''ENABLED'' \<longleftrightarrow>
             subnetType (bind_subnetSelection this) = Some PUBLIC"
    by (simp add: bind_assignPublicIp_def)
  have b: "subnetType (bind_subnetSelection this) \<noteq> Some PUBLIC \<longrightarrow>
             bind_assignPublicIp this = ''DISABLED''"
    by (simp add: bind_assignPublicIp_def)
  have c: "\<forall>sel. subnetSelection (props this) = Some sel \<longrightarrow> bind_subnetSelection this = sel"
    by (simp add: bind_subnetSelection_def)
  have d: "subnetSelection (props this) = None \<longrightarrow>
             subnetType (bind_subnetSelection this) = Some PRIVATE \<and>
             bind_assignPublicIp this = ''DISABLED''"
    by (simp add: bind_subnetSelection_def bind_assignPublicIp_def)
  have e: "\<forall>cfg. networkMode (s (EcsTask.taskDefinition this)) = AWS_VPC \<and> bind this s = Inr cfg \<longrightarrow>
             (\<exists>nc. networkConfiguration (ecsParameters cfg) = Some nc \<and>
                assignPublicIp (awsVpcConfiguration nc) = bind_assignPublicIp this)"
  proof (intro allI impI)
    fix cfg
    assume h: "networkMode (s (EcsTask.taskDefinition this)) = AWS_VPC \<and> bind this s = Inr cfg"
    then obtain ep where ep: "bind_ecsParameters this s = Inr ep" "ecsParameters cfg = ep"
      using bind_Inr [of this s cfg] by blast
    from h have k: "networkMode (s (EcsTask.taskDefinition this)) = AWS_VPC" by simp
    from ecsParameters_awsvpc [of s this ep, OF k ep(1)]
    obtain sel :: SelectedSubnets where "networkConfiguration ep = Some
          \<lparr>awsVpcConfiguration =
             \<lparr>subnets = subnetIds sel,
              assignPublicIp = bind_assignPublicIp this,
              AwsVpcConfigurationProperty.securityGroups =
                map_option (map securityGroupId) (EcsTask.securityGroups this)\<rparr>\<rparr>"
      by blast
    then show "\<exists>nc. networkConfiguration (ecsParameters cfg) = Some nc \<and>
                 assignPublicIp (awsVpcConfiguration nc) = bind_assignPublicIp this"
      using ep(2) by simp
  qed
  from a b c d e show ?thesis by blast
qed

text \<open>The same statement at the example inputs.\<close>

theorem bind_assignPublicIp_flag_witness:
  "bind_assignPublicIp ex_task_public = ''ENABLED'' \<and>
   bind_assignPublicIp ex_task = ''DISABLED'' \<and>
   subnetType (bind_subnetSelection ex_task) = Some PRIVATE \<and>
   \<not> isl (bind ex_task_public (ex_store AWS_VPC)) \<and>
   assignPublicIp (awsVpcConfiguration (the (networkConfiguration
     (ecsParameters (projr (bind ex_task_public (ex_store AWS_VPC))))))) = ''ENABLED''"
proof -
  have p: "subnetSelection (props ex_task_public) =
             Some \<lparr>subnetType = Some PUBLIC, subnetGroupName = None, onePerAz = None\<rparr>"
    by (simp add: ex_task_public_def ex_props_public_def)
  have q: "subnetSelection (props ex_task) = None"
    by (simp add: ex_task_def EcsTask_init_def ex_props_def)
  have m: "networkMode (ex_store AWS_VPC (EcsTask.taskDefinition ex_task_public)) = AWS_VPC"
    by (simp add: ex_store_def ex_taskDefinition_def)
  have n: "\<not> isl (bind ex_task_public (ex_store AWS_VPC))"
    by (simp add: bind_def bind_ecsParameters_def Let_def ex_store_def ex_taskDefinition_def
          ex_task_public_def ex_props_public_def ex_props_def ex_cluster_def ex_vpc_def)
  have b: "bind ex_task_public (ex_store AWS_VPC) =
             Inr (projr (bind ex_task_public (ex_store AWS_VPC)))"
    using n by (rule not_isl_projr)
  have pub: "subnetType (bind_subnetSelection ex_task_public) = Some PUBLIC"
    using bind_assignPublicIp_flag [of ex_task_public "ex_store AWS_VPC"] p by simp
  have 1: "bind_assignPublicIp ex_task_public = ''ENABLED''"
    using bind_assignPublicIp_flag [of ex_task_public "ex_store AWS_VPC"] pub by blast
  have 2: "subnetType (bind_subnetSelection ex_task) = Some PRIVATE \<and>
           bind_assignPublicIp ex_task = ''DISABLED''"
    using bind_assignPublicIp_flag [of ex_task "ex_store AWS_VPC"] q by blast
  have 3: "\<exists>nc. networkConfiguration
                  (ecsParameters (projr (bind ex_task_public (ex_store AWS_VPC)))) = Some nc \<and>
                assignPublicIp (awsVpcConfiguration nc) = bind_assignPublicIp ex_task_public"
    using bind_assignPublicIp_flag [of ex_task_public "ex_store AWS_VPC"] m b by blast
  from 1 2 3 n show ?thesis by auto
qed

text \<open>
  Claim C7. For a task definition whose network mode is not \<open>AWS_VPC\<close>, bind returns a
  configuration whose launch parameters hold the task count and the ARN of the task
  definition and neither a launch type nor a network configuration. In \<open>AWS_VPC\<close> mode
  every configuration that bind returns holds the task count, the ARN, a launch type
  and a network configuration, and bind returns one whenever the subnets resolve.
\<close>

theorem bind_parameters_by_networkMode:
  "(networkMode (s (EcsTask.taskDefinition this)) \<noteq> AWS_VPC \<longrightarrow>
      (\<exists>cfg. bind this s = Inr cfg \<and>
         ecsParameters cfg =
           \<lparr>EcsParametersProperty.taskCount = EcsTask.taskCount this,
            EcsParametersProperty.taskDefinitionArn =
              TaskDefinition.taskDefinitionArn (s (EcsTask.taskDefinition this)),
            launchType = None,
            networkConfiguration = None\<rparr>)) \<and>
   (networkMode (s (EcsTask.taskDefinition this)) = AWS_VPC \<longrightarrow>
      (\<forall>cfg. bind this s = Inr cfg \<longrightarrow>
         EcsParametersProperty.taskCount (ecsParameters cfg) = EcsTask.taskCount this \<and>
         EcsParametersProperty.taskDefinitionArn (ecsParameters cfg) =
           TaskDefinition.taskDefinitionArn (s (EcsTask.taskDefinition this)) \<and>
         launchType (ecsParameters cfg) \<noteq> None \<and>
         networkConfiguration (ecsParameters cfg) \<noteq> None) \<and>
      (\<forall>sel. selectSubnets (vpc (EcsTaskProps.cluster (props this)))
                (bind_subnetSelection this) = Inr sel \<longrightarrow> (\<exists>cfg. bind this s = Inr cfg)))"
proof (intro conjI impI allI)
  assume "networkMode (s (EcsTask.taskDefinition this)) \<noteq> AWS_VPC"
  then have "bind_ecsParameters this s = Inr (baseEcsParameters this s)"
    by (rule ecsParameters_other_mode)
  from bind_returns [OF this] show "\<exists>cfg. bind this s = Inr cfg \<and>
         ecsParameters cfg =
           \<lparr>EcsParametersProperty.taskCount = EcsTask.taskCount this,
            EcsParametersProperty.taskDefinitionArn =
              TaskDefinition.taskDefinitionArn (s (EcsTask.taskDefinition this)),
            launchType = None,
            networkConfiguration = None\<rparr>"
    by (simp add: baseEcsParameters_def)
next
  fix cfg
  assume m: "networkMode (s (EcsTask.taskDefinition this)) = AWS_VPC"
     and b: "bind this s = Inr cfg"
  from bind_Inr [OF b] obtain ep
    where ep: "bind_ecsParameters this s = Inr ep" "ecsParameters cfg = ep" by blast
  from ecsParameters_taskCount [OF ep(1)] ep(2)
  show "EcsParametersProperty.taskCount (ecsParameters cfg) = EcsTask.taskCount this"
   and "EcsParametersProperty.taskDefinitionArn (ecsParameters cfg) =
           TaskDefinition.taskDefinitionArn (s (EcsTask.taskDefinition this))"
    by simp_all
  from ecsParameters_awsvpc [of s this ep] m ep
  show "launchType (ecsParameters cfg) \<noteq> None"
   and "networkConfiguration (ecsParameters cfg) \<noteq> None"
    by auto
next
  fix sel
  assume m: "networkMode (s (EcsTask.taskDefinition this)) = AWS_VPC"
     and u: "selectSubnets (vpc (EcsTaskProps.cluster (props this)))
                (bind_subnetSelection this) = Inr sel"
  from ecsParameters_awsvpc_returns [of s this sel] m u
  obtain ep where "bind_ecsParameters this s = Inr ep" by blast
  from bind_returns [OF this] show "\<exists>cfg. bind this s = Inr cfg" by blast
qed

text \<open>The same statement at the example inputs.\<close>

theorem bind_parameters_by_networkMode_witness:
  "bind (EcsTask_init ex_props) (ex_store BRIDGE) =
     Inr (projr (bind (EcsTask_init ex_props) (ex_store BRIDGE))) \<and>
   ecsParameters (projr (bind (EcsTask_init ex_props) (ex_store BRIDGE))) =
     \<lparr>EcsParametersProperty.taskCount = 1,
      EcsParametersProperty.taskDefinitionArn = ''arn:taskdef'',
      launchType = None,
      networkConfiguration = None\<rparr> \<and>
   bind ex_task (ex_store AWS_VPC) = Inr (projr (bind ex_task (ex_store AWS_VPC))) \<and>
   launchType (ecsParameters (projr (bind ex_task (ex_store AWS_VPC)))) \<noteq> None \<and>
   networkConfiguration (ecsParameters (projr (bind ex_task (ex_store AWS_VPC)))) \<noteq> None"
proof -
  have m1: "networkMode (ex_store BRIDGE (EcsTask.taskDefinition (EcsTask_init ex_props))) \<noteq> AWS_VPC"
    by (simp add: ex_store_def ex_taskDefinition_def)
  have m2: "networkMode (ex_store AWS_VPC (EcsTask.taskDefinition ex_task)) = AWS_VPC"
    by (simp add: ex_store_def ex_taskDefinition_def)
  have v: "EcsTask.taskCount (EcsTask_init ex_props) = 1"
          "TaskDefinition.taskDefinitionArn
             (ex_store BRIDGE (EcsTask.taskDefinition (EcsTask_init ex_props))) = ''arn:taskdef''"
    by (simp_all add: EcsTask_init_def ex_props_def ex_store_def ex_taskDefinition_def)
  have b2: "bind ex_task (ex_store AWS_VPC) = Inr (projr (bind ex_task (ex_store AWS_VPC)))"
    using ex_bind_awsvpc by (rule not_isl_projr)
  from bind_parameters_by_networkMode [of "ex_store BRIDGE" "EcsTask_init ex_props"] m1
  obtain cfg where c: "bind (EcsTask_init ex_props) (ex_store BRIDGE) = Inr cfg"
    "ecsParameters cfg =
       \<lparr>EcsParametersProperty.taskCount = EcsTask.taskCount (EcsTask_init ex_props),
        EcsParametersProperty.taskDefinitionArn =
          TaskDefinition.taskDefinitionArn
            (ex_store BRIDGE (EcsTask.taskDefinition (EcsTask_init ex_props))),
        launchType = None,
        networkConfiguration = None\<rparr>"
    by blast
  have 1: "bind (EcsTask_init ex_props) (ex_store BRIDGE) =
             Inr (projr (bind (EcsTask_init ex_props) (ex_store BRIDGE))) \<and>
           ecsParameters (projr (bind (EcsTask_init ex_props) (ex_store BRIDGE))) =
             \<lparr>EcsParametersProperty.taskCount = 1,
              EcsParametersProperty.taskDefinitionArn = ''arn:taskdef'',
              launchType = None,
              networkConfiguration = None\<rparr>"
    using c v by simp
  have 2: "launchType (ecsParameters (projr (bind ex_task (ex_store AWS_VPC)))) \<noteq> None \<and>
           networkConfiguration (ecsParameters (projr (bind ex_task (ex_store AWS_VPC)))) \<noteq> None"
    using bind_parameters_by_networkMode [of "ex_store AWS_VPC" ex_task] m2 b2 by blast
  from 1 2 b2 show ?thesis by blast
qed

text \<open>
  Claim C8, for inputs that pass the mutual-exclusion check. For a task definition whose network mode is not \<open>AWS_VPC\<close> and
  properties that supply at most one of the two security-group inputs, the constructor
  succeeds, the resolved list and the legacy field both stay undefined, and the warning
  \<^verbatim>\<open>security groups are ignored when network mode is not awsvpc\<close> is added to the task
  definition exactly when a security-group input was supplied; otherwise the store is
  unchanged.
\<close>

theorem constructor_other_networkMode:
  assumes "networkMode (s (EcsTaskProps.taskDefinition p)) \<noteq> AWS_VPC"
      and "EcsTaskProps.securityGroup p = None \<or> EcsTaskProps.securityGroups p = None"
  shows "\<exists>this s'.
           EcsTask_constructor p s = (Inr this, s') \<and>
           EcsTask.securityGroup this = None \<and>
           EcsTask.securityGroups this = None \<and>
           warnings (node (s' (EcsTaskProps.taskDefinition p))) =
             warnings (node (s (EcsTaskProps.taskDefinition p))) @
             (if EcsTaskProps.securityGroup p \<noteq> None \<or> EcsTaskProps.securityGroups p \<noteq> None
              then [''security groups are ignored when network mode is not awsvpc'']
              else []) \<and>
           s' =
             (if EcsTaskProps.securityGroup p \<noteq> None \<or> EcsTaskProps.securityGroups p \<noteq> None
              then addWarning s (EcsTaskProps.taskDefinition p)
                     ''security groups are ignored when network mode is not awsvpc''
              else s)"
proof (cases "EcsTaskProps.securityGroup p = None \<and> EcsTaskProps.securityGroups p = None")
  case True
  with assms(1) show ?thesis
    by (simp add: EcsTask_constructor_def EcsTask_init_def Let_def)
next
  case False
  with assms have "EcsTask_constructor p s =
      (Inr (EcsTask_init p),
       addWarning s (EcsTaskProps.taskDefinition p)
         ''security groups are ignored when network mode is not awsvpc'')"
    by (auto simp: EcsTask_constructor_def EcsTask_init_def Let_def)
  with False show ?thesis
    by (auto simp: EcsTask_init_def addWarning_warnings)
qed

text \<open>The same statement at the example inputs.\<close>

theorem constructor_other_networkMode_witness:
  "fst (EcsTask_constructor ex_props_legacy (ex_store BRIDGE)) = Inr (EcsTask_init ex_props_legacy) \<and>
   EcsTask.securityGroup (EcsTask_init ex_props_legacy) = None \<and>
   EcsTask.securityGroups (EcsTask_init ex_props_legacy) = None \<and>
   warnings (node (snd (EcsTask_constructor ex_props_legacy (ex_store BRIDGE)) 0)) =
     [''security groups are ignored when network mode is not awsvpc'']"
proof -
  have m: "networkMode (ex_store BRIDGE (EcsTaskProps.taskDefinition ex_props_legacy)) \<noteq> AWS_VPC"
    by (simp add: ex_store_def ex_taskDefinition_def)
  have a: "EcsTaskProps.securityGroup ex_props_legacy = None \<or>
           EcsTaskProps.securityGroups ex_props_legacy = None"
    by (simp add: ex_props_legacy_def ex_props_def)
  have v: "EcsTaskProps.securityGroup ex_props_legacy \<noteq> None"
          "EcsTaskProps.taskDefinition ex_props_legacy = 0"
          "warnings (node (ex_store BRIDGE 0)) = []"
    by (simp_all add: ex_props_legacy_def ex_props_def ex_store_def ex_taskDefinition_def)
  have f: "fst (EcsTask_constructor ex_props_legacy (ex_store BRIDGE)) =
             Inr (EcsTask_init ex_props_legacy)"
    by (simp add: EcsTask_constructor_def Let_def ex_props_legacy_def ex_props_def
          EcsTask_init_def ex_store_def ex_taskDefinition_def)
  from constructor_other_networkMode [of "ex_store BRIDGE" ex_props_legacy, OF m a]
  obtain this s' where
    r: "EcsTask_constructor ex_props_legacy (ex_store BRIDGE) = (Inr this, s')"
       "EcsTask.securityGroup this = None"
       "EcsTask.securityGroups this = None"
       "warnings (node (s' (EcsTaskProps.taskDefinition ex_props_legacy))) =
          warnings (node (ex_store BRIDGE (EcsTaskProps.taskDefinition ex_props_legacy))) @
          (if EcsTaskProps.securityGroup ex_props_legacy \<noteq> None \<or>
              EcsTaskProps.securityGroups ex_props_legacy \<noteq> None
           then [''security groups are ignored when network mode is not awsvpc'']
           else [])"
    by blast
  from r(1) f have e: "this = EcsTask_init ex_props_legacy" by simp
  from r e v show ?thesis by simp
qed

text \<open>
  The statement for every combination of security-group inputs fails: in \<open>BRIDGE\<close> mode
  with both inputs supplied the constructor throws, so construction does not succeed,
  and no warning is recorded although security-group inputs were supplied.
\<close>

theorem both_inputs_fail_in_bridge_mode:
  "networkMode (ex_store BRIDGE (EcsTaskProps.taskDefinition ex_props_both)) \<noteq> AWS_VPC \<and>
   EcsTask_constructor ex_props_both (ex_store BRIDGE) =
     (Inl (Error ''Only one of SecurityGroup or SecurityGroups can be populated.''),
      ex_store BRIDGE) \<and>
   warnings (node (ex_store BRIDGE (EcsTaskProps.taskDefinition ex_props_both))) = []"
  by (simp add: EcsTask_constructor_def ex_props_both_def ex_props_def ex_store_def
        ex_taskDefinition_def)

text \<open>
  Claim C9. The input payload of every configuration that bind returns is built from the
  container overrides of the properties: without overrides the payload's list is
  undefined; with overrides it has the same length, and its entry at each position
  holds the container name of the supplied entry under the key \<^verbatim>\<open>name\<close> and every other
  override field unchanged. Overrides never make bind fail: bind fails only in
  \<open>AWS_VPC\<close> mode when the subnet lookup of the cluster's network fails.
\<close>

theorem bind_containerOverrides:
  "(\<forall>cfg. bind this s = Inr cfg \<longrightarrow> input cfg = bind_input this) \<and>
   (EcsTaskProps.containerOverrides (props this) = None \<longrightarrow>
      TargetInput.containerOverrides (bind_input this) = None) \<and>
   (\<forall>cs. EcsTaskProps.containerOverrides (props this) = Some cs \<longrightarrow>
      (\<exists>os. TargetInput.containerOverrides (bind_input this) = Some os \<and>
         length os = length cs \<and>
         (\<forall>i<length cs.
            name (os ! i) = containerName (cs ! i) \<and>
            command (os ! i) = command (cs ! i) \<and>
            environment (os ! i) = environment (cs ! i) \<and>
            cpu (os ! i) = cpu (cs ! i) \<and>
            memoryLimit (os ! i) = memoryLimit (cs ! i) \<and>
            memoryReservation (os ! i) = memoryReservation (cs ! i)))) \<and>
   (isl (bind this s) \<longleftrightarrow>
      networkMode (s (EcsTask.taskDefinition this)) = AWS_VPC \<and>
      isl (selectSubnets (vpc (EcsTaskProps.cluster (props this))) (bind_subnetSelection this)))"
proof -
  have a: "\<forall>cfg. bind this s = Inr cfg \<longrightarrow> input cfg = bind_input this"
    using bind_Inr by blast
  have b: "EcsTaskProps.containerOverrides (props this) = None \<longrightarrow>
             TargetInput.containerOverrides (bind_input this) = None"
    by (simp add: bind_input_def)
  have c: "\<forall>cs. EcsTaskProps.containerOverrides (props this) = Some cs \<longrightarrow>
      (\<exists>os. TargetInput.containerOverrides (bind_input this) = Some os \<and>
         length os = length cs \<and>
         (\<forall>i<length cs.
            name (os ! i) = containerName (cs ! i) \<and>
            command (os ! i) = command (cs ! i) \<and>
            environment (os ! i) = environment (cs ! i) \<and>
            cpu (os ! i) = cpu (cs ! i) \<and>
            memoryLimit (os ! i) = memoryLimit (cs ! i) \<and>
            memoryReservation (os ! i) = memoryReservation (cs ! i)))"
    by (simp add: bind_input_def renameContainer_fields)
  from a b c bind_fails_iff [of this s] show ?thesis by blast
qed

text \<open>The same statement at the example inputs.\<close>

theorem bind_containerOverrides_witness:
  "\<not> isl (bind (EcsTask_init ex_props_overrides) (ex_store BRIDGE)) \<and>
   TargetInput.containerOverrides
     (input (projr (bind (EcsTask_init ex_props_overrides) (ex_store BRIDGE)))) =
     Some [\<lparr>command = Some [''echo'', ''hello''], environment = None, cpu = Some 256,
            memoryLimit = None, memoryReservation = None, name = ''web''\<rparr>,
           \<lparr>command = None, environment = Some [(''STAGE'', ''prod'')], cpu = None,
            memoryLimit = Some 512, memoryReservation = None, name = ''worker''\<rparr>] \<and>
   TargetInput.containerOverrides
     (input (projr (bind (EcsTask_init ex_props) (ex_store BRIDGE)))) = None"
proof -
  have m: "networkMode (ex_store BRIDGE (EcsTask.taskDefinition (EcsTask_init ex_props_overrides)))
             \<noteq> AWS_VPC"
          "networkMode (ex_store BRIDGE (EcsTask.taskDefinition (EcsTask_init ex_props)))
             \<noteq> AWS_VPC"
    by (simp_all add: ex_store_def ex_taskDefinition_def)
  have n1: "\<not> isl (bind (EcsTask_init ex_props_overrides) (ex_store BRIDGE))"
    using bind_containerOverrides [of "EcsTask_init ex_props_overrides" "ex_store BRIDGE"] m(1)
    by blast
  have n2: "\<not> isl (bind (EcsTask_init ex_props) (ex_store BRIDGE))"
    using bind_containerOverrides [of "EcsTask_init ex_props" "ex_store BRIDGE"] m(2)
    by blast
  have i1: "input (projr (bind (EcsTask_init ex_props_overrides) (ex_store BRIDGE))) =
              bind_input (EcsTask_init ex_props_overrides)"
    using bind_containerOverrides [of "EcsTask_init ex_props_overrides" "ex_store BRIDGE"]
          not_isl_projr [OF n1]
    by blast
  have i2: "input (projr (bind (EcsTask_init ex_props) (ex_store BRIDGE))) =
              bind_input (EcsTask_init ex_props)"
    using bind_containerOverrides [of "EcsTask_init ex_props" "ex_store BRIDGE"]
          not_isl_projr [OF n2]
    by blast
  have v1: "TargetInput.containerOverrides (bind_input (EcsTask_init ex_props_overrides)) =
     Some [\<lparr>command = Some [''echo'', ''hello''], environment = None, cpu = Some 256,
            memoryLimit = None, memoryReservation = None, name = ''web''\<rparr>,
           \<lparr>command = None, environment = Some [(''STAGE'', ''prod'')], cpu = None,
            memoryLimit = Some 512, memoryReservation = None, name = ''worker''\<rparr>]"
    by (simp add: bind_input_def EcsTask_init_def ex_props_overrides_def ex_props_def
          ex_overrides_def renameContainer_def)
  have v2: "TargetInput.containerOverrides (bind_input (EcsTask_init ex_props)) = None"
    by (simp add: bind_input_def EcsTask_init_def ex_props_def)
  from n1 i1 i2 v1 v2 show ?thesis by simp
qed

text \<open>
  Claim C10. For every target constructed for a task definition in \<open>AWS_VPC\<close> mode the
  resolved security-group list is defined: it is the supplied list when one was
  supplied, and otherwise the one-element list holding the legacy group, or else the
  child found under \<^verbatim>\<open>SecurityGroup\<close>, or else the group created. Hence the network
  configuration of every configuration that bind returns has a defined list of
  security-group ids, the ids of the resolved groups.
\<close>

theorem awsvpc_securityGroups_defined:
  assumes "networkMode (s (EcsTaskProps.taskDefinition p)) = AWS_VPC"
      and "EcsTask_constructor p s = (Inr this, s')"
  shows "(\<forall>gs. EcsTaskProps.securityGroups p = Some gs \<longrightarrow>
            EcsTask.securityGroups this = Some gs) \<and>
         (EcsTaskProps.securityGroups p = None \<longrightarrow>
            EcsTask.securityGroups this = Some
              [case EcsTaskProps.securityGroup p of
                 Some l \<Rightarrow> l
               | None \<Rightarrow>
                   (case tryFindChild s (EcsTaskProps.taskDefinition p) ''SecurityGroup'' of
                      Some c \<Rightarrow> c
                    | None \<Rightarrow>
                        fst (new_SecurityGroup s (EcsTaskProps.taskDefinition p)
                               ''SecurityGroup'' (vpc (EcsTaskProps.cluster p))))]) \<and>
         EcsTask.securityGroups this \<noteq> None \<and>
         (\<forall>cfg. bind this s' = Inr cfg \<longrightarrow>
            (\<exists>nc gs. networkConfiguration (ecsParameters cfg) = Some nc \<and>
               EcsTask.securityGroups this = Some gs \<and>
               AwsVpcConfigurationProperty.securityGroups (awsVpcConfiguration nc) =
                 Some (map securityGroupId gs)))"
proof -
  let ?td = "EcsTaskProps.taskDefinition p"
  have a: "\<forall>gs. EcsTaskProps.securityGroups p = Some gs \<longrightarrow>
            EcsTask.securityGroups this = Some gs"
    using assms
    by (auto simp: EcsTask_constructor_def EcsTask_init_def Let_def split: if_splits)
  have b: "EcsTaskProps.securityGroups p = None \<longrightarrow>
            EcsTask.securityGroups this = Some
              [case EcsTaskProps.securityGroup p of
                 Some l \<Rightarrow> l
               | None \<Rightarrow>
                   (case tryFindChild s ?td ''SecurityGroup'' of
                      Some c \<Rightarrow> c
                    | None \<Rightarrow>
                        fst (new_SecurityGroup s ?td
                               ''SecurityGroup'' (vpc (EcsTaskProps.cluster p))))]"
    using assms
    by (auto simp: EcsTask_constructor_def EcsTask_init_def Let_def
             split: if_splits option.splits prod.splits)
  from a b obtain gs where gs: "EcsTask.securityGroups this = Some gs"
    by (cases "EcsTaskProps.securityGroups p") auto
  have t: "EcsTask.taskDefinition this = ?td"
    using constructor_taskDefinition [OF assms(2)] by simp
  have m: "networkMode (s' (EcsTask.taskDefinition this)) = AWS_VPC"
    using constructor_networkMode [OF assms(2), of ?td] assms(1) t by simp
  have c: "\<forall>cfg. bind this s' = Inr cfg \<longrightarrow>
            (\<exists>nc gs. networkConfiguration (ecsParameters cfg) = Some nc \<and>
               EcsTask.securityGroups this = Some gs \<and>
               AwsVpcConfigurationProperty.securityGroups (awsVpcConfiguration nc) =
                 Some (map securityGroupId gs))"
  proof (intro allI impI)
    fix cfg
    assume "bind this s' = Inr cfg"
    then obtain ep where ep: "bind_ecsParameters this s' = Inr ep" "ecsParameters cfg = ep"
      using bind_Inr [of this s' cfg] by blast
    from ecsParameters_awsvpc [of s' this ep, OF m ep(1)]
    obtain sel :: SelectedSubnets where "networkConfiguration ep = Some
          \<lparr>awsVpcConfiguration =
             \<lparr>subnets = subnetIds sel,
              assignPublicIp = bind_assignPublicIp this,
              AwsVpcConfigurationProperty.securityGroups =
                map_option (map securityGroupId) (EcsTask.securityGroups this)\<rparr>\<rparr>"
      by blast
    with gs ep(2)
    show "\<exists>nc gs. networkConfiguration (ecsParameters cfg) = Some nc \<and>
               EcsTask.securityGroups this = Some gs \<and>
               AwsVpcConfigurationProperty.securityGroups (awsVpcConfiguration nc) =
                 Some (map securityGroupId gs)"
      by simp
  qed
  from a b c gs show ?thesis by simp
qed

text \<open>The same statement at the example inputs.\<close>

theorem awsvpc_securityGroups_defined_witness:
  "networkMode (ex_store AWS_VPC (EcsTaskProps.taskDefinition ex_props)) = AWS_VPC \<and>
   EcsTask_constructor ex_props (ex_store AWS_VPC) = (Inr ex_task, ex_store_created) \<and>
   EcsTask.securityGroups ex_task = Some [ex_createdGroup] \<and>
   \<not> isl (bind ex_task ex_store_created) \<and>
   AwsVpcConfigurationProperty.securityGroups (awsVpcConfiguration (the (networkConfiguration
     (ecsParameters (projr (bind ex_task ex_store_created)))))) =
     Some [''Stack/TaskDef/SecurityGroup'']"
proof -
  have m: "networkMode (ex_store AWS_VPC (EcsTaskProps.taskDefinition ex_props)) = AWS_VPC"
    by (simp add: ex_store_def ex_taskDefinition_def)
  have g: "EcsTask.securityGroups ex_task = Some [ex_createdGroup]"
    by (simp add: ex_task_def)
  have n: "\<not> isl (bind ex_task ex_store_created)"
    by (simp add: bind_fails_iff ex_task_def EcsTask_init_def ex_props_def ex_cluster_def
          ex_vpc_def)
  from awsvpc_securityGroups_defined [of "ex_store AWS_VPC" ex_props ex_task ex_store_created,
         OF m ex_constructor_created] not_isl_projr [OF n]
  obtain nc gs where
    r: "networkConfiguration (ecsParameters (projr (bind ex_task ex_store_created))) = Some nc"
       "EcsTask.securityGroups ex_task = Some gs"
       "AwsVpcConfigurationProperty.securityGroups (awsVpcConfiguration nc) =
          Some (map securityGroupId gs)"
    by blast
  from r g m n ex_constructor_created show ?thesis
    by (auto simp: ex_createdGroup_def)
qed

end
